theory Spec2Isabelle
  imports Complex_Main "HOL-Library.Word" "HOL-Library.Sublist"
begin

section \<open>JavaScript values\<close>

text \<open>
  A JavaScript string is a sequence of UTF-16 code units; \<open>length\<close>, \<open>===\<close> and
  \<open>includes\<close> work on code units. String literals of the source are ASCII and are
  written \<open>lit ''...''\<close>.
\<close>

type_synonym jsstring = "16 word list"

definition lit :: "string \<Rightarrow> jsstring" where
  "lit s = map of_char s"

text \<open>
  A JavaScript number is \<open>NaN\<close>, an infinity or a finite double; every finite double is
  a rational, and the comparisons used here are exact on them. Negative zero behaves as
  \<open>Fin 0\<close> in every operation modelled.
\<close>

datatype number = NaN | PosInf | NegInf | Fin rat

text \<open>
  The values a parsed response body, or a raw form value, may be. An object is a finite
  map from property names to values.
\<close>

datatype json =
    JUndefined
  | JNull
  | JBool bool
  | JNum number
  | JStr jsstring
  | JArr "json list"
  | JObj "jsstring \<Rightarrow> json option"

datatype exn = TypeError

text \<open>JavaScript truthiness (\<open>ToBoolean\<close>).\<close>

fun truthy :: "json \<Rightarrow> bool" where
  "truthy JUndefined = False"
| "truthy JNull = False"
| "truthy (JBool b) = b"
| "truthy (JNum n) = (n \<noteq> NaN \<and> n \<noteq> Fin 0)"
| "truthy (JStr s) = (s \<noteq> [])"
| "truthy (JArr xs) = True"
| "truthy (JObj m) = True"

text \<open>The value read at key \<open>k\<close> of an object with the properties \<open>e\<close>.\<close>

definition entry :: "(jsstring \<Rightarrow> json option) \<Rightarrow> jsstring \<Rightarrow> json" where
  "entry e k = (case e k of None \<Rightarrow> JUndefined | Some v \<Rightarrow> v)"

text \<open>
  Property read \<open>o[k]\<close>. Reading a property of \<open>undefined\<close> or \<open>null\<close> throws a
  \<open>TypeError\<close>; a missing property reads as \<open>undefined\<close>. The handler reads only the keys
  \<open>errors\<close>, \<open>email\<close>, \<open>githubUrl\<close>, \<open>yearsOfExperience\<close>, \<open>password\<close> and
  \<open>confirmPassword\<close>, none of which is an own or inherited property of a boolean, a
  number, a string or an array, so those reads give \<open>undefined\<close>.
\<close>

fun get_prop :: "json \<Rightarrow> jsstring \<Rightarrow> exn + json" where
  "get_prop JUndefined k = Inl TypeError"
| "get_prop JNull k = Inl TypeError"
| "get_prop (JObj m) k = Inr (entry m k)"
| "get_prop v k = Inr JUndefined"

text \<open>\<open>k in o\<close> for the keys above: only an object carries an entry.\<close>

fun has_entry :: "json \<Rightarrow> jsstring \<Rightarrow> bool" where
  "has_entry (JObj m) k = (m k \<noteq> None)"
| "has_entry v k = False"


section \<open>The form component (\<open>Form\<close>)\<close>

datatype ValidFieldNames = Email | GithubUrl | YearsOfExperience | Password | ConfirmPassword

text \<open>The object handed to \<open>setError\<close>.\<close>

record FieldError =
  error_type :: jsstring
  error_message :: json

text \<open>
  What the handler can change: the \<open>errors\<close> of the form state (one entry per field at
  most) and the notifications shown with \<open>alert\<close>.
\<close>

record formState =
  errors :: "ValidFieldNames \<Rightarrow> FieldError option"
  alerts :: "jsstring list"

definition setError :: "ValidFieldNames \<Rightarrow> FieldError \<Rightarrow> formState \<Rightarrow> formState" where
  "setError name err st = st\<lparr>errors := (errors st)(name \<mapsto> err)\<rparr>"

definition alert :: "jsstring \<Rightarrow> formState \<Rightarrow> formState" where
  "alert msg st = st\<lparr>alerts := alerts st @ [msg]\<rparr>"

text \<open>
  The outcome of \<open>await axios.post("/api/form", data)\<close>: the promise rejects, or it
  resolves with a response whose \<open>data\<close> is the parsed body.
\<close>

datatype post_outcome = Rejected | Resolved json

text \<open>The object literal \<open>fieldErrorMapping\<close>, in insertion order.\<close>

definition fieldErrorMapping :: "(jsstring \<times> ValidFieldNames) list" where
  "fieldErrorMapping =
     [(lit ''email'', Email),
      (lit ''githubUrl'', GithubUrl),
      (lit ''yearsOfExperience'', YearsOfExperience),
      (lit ''password'', Password),
      (lit ''confirmPassword'', ConfirmPassword)]"

text \<open>\<open>Object.keys(fieldErrorMapping)\<close>.\<close>

definition field_keys :: "jsstring list" where
  "field_keys = map fst fieldErrorMapping"

text \<open>
  \<open>keys.find((field) => errors[field])\<close>: the first key whose callback result is truthy;
  an exception of the callback ends the search.
\<close>

fun find_field :: "json \<Rightarrow> jsstring list \<Rightarrow> exn + jsstring option" where
  "find_field errs [] = Inr None"
| "find_field errs (k # ks) =
     (case get_prop errs k of
        Inl e \<Rightarrow> Inl e
      | Inr v \<Rightarrow> if truthy v then Inr (Some k) else find_field errs ks)"

text \<open>The body of the \<open>try\<close> block, after the request has resolved with \<open>data\<close>.\<close>

definition try_block :: "json \<Rightarrow> formState \<Rightarrow> exn + formState" where
  "try_block data st =
     (case get_prop data (lit ''errors'') of
        Inl e \<Rightarrow> Inl e
      | Inr e0 \<Rightarrow>
          (let errs = (case e0 of JUndefined \<Rightarrow> JObj Map.empty | _ \<Rightarrow> e0) in
           case find_field errs field_keys of
             Inl e \<Rightarrow> Inl e
           | Inr None \<Rightarrow> Inr st
           | Inr (Some fieldWithError) \<Rightarrow>
               (case get_prop errs fieldWithError of
                  Inl e \<Rightarrow> Inl e
                | Inr msg \<Rightarrow>
                    (case map_of fieldErrorMapping fieldWithError of
                       Some name \<Rightarrow>
                         Inr (setError name \<lparr>error_type = lit ''server'', error_message = msg\<rparr> st)
                     | None \<Rightarrow> Inr st))))"

text \<open>\<open>onSubmit\<close>: any exception of the \<open>try\<close> block ends in the \<open>catch\<close> block.\<close>

definition onSubmit :: "post_outcome \<Rightarrow> formState \<Rightarrow> formState" where
  "onSubmit outcome st =
     (case outcome of
        Rejected \<Rightarrow> alert (lit ''Submitting form failed!'') st
      | Resolved data \<Rightarrow>
          (case try_block data st of
             Inl e \<Rightarrow> alert (lit ''Submitting form failed!'') st
           | Inr st' \<Rightarrow> st'))"


section \<open>The validation schema (\<open>UserSchema\<close>)\<close>

text \<open>The type \<open>FormData\<close>: what a successful validation yields.\<close>

record FormData =
  email :: jsstring
  githubUrl :: jsstring
  yearsOfExperience :: number
  password :: jsstring
  confirmPassword :: jsstring

subsection \<open>The parts of zod the schema uses\<close>

text \<open>
  A zod parser returns \<open>OK v\<close> (valid), \<open>DIRTY v\<close> (the value has the expected type
  but a check has failed) or \<open>INVALID\<close> (aborted: the value has not the expected type),
  and adds its issues to the parse context. Here a parser returns its result together
  with the issues it adds, in order.
\<close>

datatype 'a SyncParseReturn = OK 'a | DIRTY 'a | INVALID

datatype ZodIssueCode = invalid_type | invalid_string | too_small | too_big | custom

record ZodIssue =
  code :: ZodIssueCode
  path :: "jsstring list"
  message :: jsstring

text \<open>
  zod decides the syntax of an e-mail address with a regular expression of its own, and
  the syntax of a URL by whether \<open>new URL(s)\<close> throws. Both belong to the library and
  the platform, and are parameters of the parsers; the regular expression is given
  further down, as \<open>emailRegex_test\<close>.
\<close>

record zod_lib =
  is_email :: "jsstring \<Rightarrow> bool"
  is_url :: "jsstring \<Rightarrow> bool"

text \<open>\<open>getParsedType\<close>, as zod's messages print it.\<close>

fun getParsedType :: "json \<Rightarrow> string" where
  "getParsedType JUndefined = ''undefined''"
| "getParsedType JNull = ''null''"
| "getParsedType (JBool b) = ''boolean''"
| "getParsedType (JNum n) = (if n = NaN then ''nan'' else ''number'')"
| "getParsedType (JStr s) = ''string''"
| "getParsedType (JArr xs) = ''array''"
| "getParsedType (JObj m) = ''object''"

text \<open>The message of zod's default error map for an \<open>invalid_type\<close> issue.\<close>

definition invalid_type_default :: "string \<Rightarrow> json \<Rightarrow> jsstring" where
  "invalid_type_default expected v =
     (case v of
        JUndefined \<Rightarrow> lit ''Required''
      | _ \<Rightarrow> lit (''Expected '' @ expected @ '', received '' @ getParsedType v))"

text \<open>\<open>s.includes(sub)\<close>: \<open>sub\<close> occurs in \<open>s\<close> at some position.\<close>

fun js_includes :: "jsstring \<Rightarrow> jsstring \<Rightarrow> bool" where
  "js_includes [] sub = (sub = [])"
| "js_includes (c # cs) sub = (prefix sub (c # cs) \<or> js_includes cs sub)"

text \<open>
  The checks of a \<open>ZodString\<close> that the schema uses. \<open>email()\<close> and \<open>url()\<close> are given
  no message in the source and report the default one; \<open>includes\<close>, \<open>min\<close> and \<open>max\<close>
  are given their message.
\<close>

datatype string_check =
    check_email
  | check_url
  | check_includes jsstring jsstring
  | check_min nat jsstring
  | check_max nat jsstring

fun string_check_issues :: "zod_lib \<Rightarrow> jsstring list \<Rightarrow> jsstring \<Rightarrow> string_check \<Rightarrow> ZodIssue list" where
  "string_check_issues lib p s check_email =
     (if is_email lib s then []
      else [\<lparr>code = invalid_string, path = p, message = lit ''Invalid email''\<rparr>])"
| "string_check_issues lib p s check_url =
     (if is_url lib s then []
      else [\<lparr>code = invalid_string, path = p, message = lit ''Invalid url''\<rparr>])"
| "string_check_issues lib p s (check_includes sub msg) =
     (if js_includes s sub then []
      else [\<lparr>code = invalid_string, path = p, message = msg\<rparr>])"
| "string_check_issues lib p s (check_min n msg) =
     (if length s < n then [\<lparr>code = too_small, path = p, message = msg\<rparr>] else [])"
| "string_check_issues lib p s (check_max n msg) =
     (if length s > n then [\<lparr>code = too_big, path = p, message = msg\<rparr>] else [])"

text \<open>
  \<open>ZodString._parse\<close>: a value that is not a string aborts with an \<open>invalid_type\<close>
  issue; on a string every check runs, and each failed check adds its issue and makes the
  result dirty.
\<close>

definition ZodString_parse ::
  "zod_lib \<Rightarrow> string_check list \<Rightarrow> jsstring list \<Rightarrow> json \<Rightarrow> jsstring SyncParseReturn \<times> ZodIssue list" where
  "ZodString_parse lib checks p v =
     (case v of
        JStr s \<Rightarrow>
          (let issues = concat (map (string_check_issues lib p s) checks)
           in (if issues = [] then OK s else DIRTY s, issues))
      | _ \<Rightarrow>
          (INVALID,
           [\<lparr>code = invalid_type, path = p, message = invalid_type_default ''string'' v\<rparr>]))"

text \<open>JavaScript's \<open><\<close> on numbers: false as soon as an operand is \<open>NaN\<close>.\<close>

fun number_less :: "number \<Rightarrow> number \<Rightarrow> bool" where
  "number_less NaN b = False"
| "number_less a NaN = False"
| "number_less NegInf b = (b \<noteq> NegInf)"
| "number_less a NegInf = False"
| "number_less PosInf b = False"
| "number_less (Fin x) PosInf = True"
| "number_less (Fin x) (Fin y) = (x < y)"

text \<open>
  The checks of a \<open>ZodNumber\<close> that the schema uses, both inclusive. They are given no
  message in the source; the second argument is the message of zod's default error map
  for the bound.
\<close>

datatype number_check =
    number_min rat jsstring
  | number_max rat jsstring

fun number_check_issues :: "jsstring list \<Rightarrow> number \<Rightarrow> number_check \<Rightarrow> ZodIssue list" where
  "number_check_issues p n (number_min b msg) =
     (if number_less n (Fin b) then [\<lparr>code = too_small, path = p, message = msg\<rparr>] else [])"
| "number_check_issues p n (number_max b msg) =
     (if number_less (Fin b) n then [\<lparr>code = too_big, path = p, message = msg\<rparr>] else [])"

text \<open>
  \<open>ZodNumber._parse\<close> with the options \<open>required_error\<close> and \<open>invalid_type_error\<close>: a
  value whose parsed type is not \<open>number\<close> (\<open>NaN\<close> has the parsed type \<open>nan\<close>) aborts with
  an \<open>invalid_type\<close> issue, whose message is \<open>required_error\<close> when the value is
  \<open>undefined\<close> and \<open>invalid_type_error\<close> otherwise.
\<close>

definition ZodNumber_parse ::
  "jsstring \<Rightarrow> jsstring \<Rightarrow> number_check list \<Rightarrow> jsstring list \<Rightarrow> json \<Rightarrow> number SyncParseReturn \<times> ZodIssue list" where
  "ZodNumber_parse required_error invalid_type_error checks p v =
     (case v of
        JNum n \<Rightarrow>
          (if n = NaN then
             (INVALID, [\<lparr>code = invalid_type, path = p, message = invalid_type_error\<rparr>])
           else
             (let issues = concat (map (number_check_issues p n) checks)
              in (if issues = [] then OK n else DIRTY n, issues)))
      | JUndefined \<Rightarrow>
          (INVALID, [\<lparr>code = invalid_type, path = p, message = required_error\<rparr>])
      | _ \<Rightarrow>
          (INVALID, [\<lparr>code = invalid_type, path = p, message = invalid_type_error\<rparr>]))"

text \<open>
  \<open>ParseStatus.mergeObjectSync\<close>, one field at a time: an aborted field aborts the
  object, a dirty field makes it dirty, and the field's value enters the result.
\<close>

fun merge_field :: "('a \<Rightarrow> 'b) SyncParseReturn \<Rightarrow> 'a SyncParseReturn \<Rightarrow> 'b SyncParseReturn" where
  "merge_field INVALID r = INVALID"
| "merge_field (OK f) (OK x) = OK (f x)"
| "merge_field (OK f) (DIRTY x) = DIRTY (f x)"
| "merge_field (OK f) INVALID = INVALID"
| "merge_field (DIRTY f) (OK x) = DIRTY (f x)"
| "merge_field (DIRTY f) (DIRTY x) = DIRTY (f x)"
| "merge_field (DIRTY f) INVALID = INVALID"

text \<open>The value of a result that is not aborted.\<close>

fun value_of :: "'a SyncParseReturn \<Rightarrow> 'a option" where
  "value_of (OK x) = Some x"
| "value_of (DIRTY x) = Some x"
| "value_of INVALID = None"

text \<open>
  \<open>ZodEffects._parse\<close> for a refinement made with \<open>.refine(check, {message, path})\<close>:
  the inner schema is parsed first; when it aborts, the refinement does not run; when
  it is valid or dirty, the refinement runs on its value, and a failed refinement adds a
  \<open>custom\<close> issue at the given path and makes the result dirty.
\<close>

definition refine ::
  "('a \<Rightarrow> bool) \<Rightarrow> jsstring \<Rightarrow> jsstring list \<Rightarrow>
   (jsstring list \<Rightarrow> json \<Rightarrow> 'a SyncParseReturn \<times> ZodIssue list) \<Rightarrow>
   jsstring list \<Rightarrow> json \<Rightarrow> 'a SyncParseReturn \<times> ZodIssue list" where
  "refine check msg rpath inner p v =
     (case inner p v of
        (INVALID, issues) \<Rightarrow> (INVALID, issues)
      | (OK d, issues) \<Rightarrow>
          (if check d then (OK d, issues)
           else (DIRTY d, issues @ [\<lparr>code = custom, path = p @ rpath, message = msg\<rparr>]))
      | (DIRTY d, issues) \<Rightarrow>
          (if check d then (DIRTY d, issues)
           else (DIRTY d, issues @ [\<lparr>code = custom, path = p @ rpath, message = msg\<rparr>])))"

subsection \<open>The schema\<close>

definition email_schema ::
  "zod_lib \<Rightarrow> jsstring list \<Rightarrow> json \<Rightarrow> jsstring SyncParseReturn \<times> ZodIssue list" where
  "email_schema lib = ZodString_parse lib [check_email]"

definition githubUrl_schema ::
  "zod_lib \<Rightarrow> jsstring list \<Rightarrow> json \<Rightarrow> jsstring SyncParseReturn \<times> ZodIssue list" where
  "githubUrl_schema lib =
     ZodString_parse lib
       [check_url, check_includes (lit ''github.com'') (lit ''Invalid GitHub URL'')]"

definition yearsOfExperience_schema ::
  "jsstring list \<Rightarrow> json \<Rightarrow> number SyncParseReturn \<times> ZodIssue list" where
  "yearsOfExperience_schema =
     ZodNumber_parse (lit ''required field'') (lit ''Years of Experience is required'')
       [number_min 1 (lit ''Number must be greater than or equal to 1''),
        number_max 10 (lit ''Number must be less than or equal to 10'')]"

definition password_schema ::
  "zod_lib \<Rightarrow> jsstring list \<Rightarrow> json \<Rightarrow> jsstring SyncParseReturn \<times> ZodIssue list" where
  "password_schema lib =
     ZodString_parse lib
       [check_min 8 (lit ''Password is too short''),
        check_max 20 (lit ''Password is too long'')]"

definition confirmPassword_schema ::
  "zod_lib \<Rightarrow> jsstring list \<Rightarrow> json \<Rightarrow> jsstring SyncParseReturn \<times> ZodIssue list" where
  "confirmPassword_schema lib = ZodString_parse lib []"

text \<open>
  \<open>ZodObject._parse\<close> for the shape of \<open>z.object({...})\<close>: every field is parsed, in the
  order of the shape, with the value read from the input at its key; unknown keys are
  dropped. An input that is not an object aborts.
\<close>

definition UserSchema_object ::
  "zod_lib \<Rightarrow> jsstring list \<Rightarrow> json \<Rightarrow> FormData SyncParseReturn \<times> ZodIssue list" where
  "UserSchema_object lib p v =
     (case v of
        JObj m \<Rightarrow>
          (let (r1, i1) = email_schema lib (p @ [lit ''email'']) (entry m (lit ''email''));
               (r2, i2) = githubUrl_schema lib (p @ [lit ''githubUrl''])
                            (entry m (lit ''githubUrl''));
               (r3, i3) = yearsOfExperience_schema (p @ [lit ''yearsOfExperience''])
                            (entry m (lit ''yearsOfExperience''));
               (r4, i4) = password_schema lib (p @ [lit ''password''])
                            (entry m (lit ''password''));
               (r5, i5) = confirmPassword_schema lib (p @ [lit ''confirmPassword''])
                            (entry m (lit ''confirmPassword''))
           in (merge_field (merge_field (merge_field (merge_field (merge_field
                 (OK (\<lambda>a b c d e. \<lparr>email = a, githubUrl = b, yearsOfExperience = c,
                                      password = d, confirmPassword = e\<rparr>))
                 r1) r2) r3) r4) r5,
               i1 @ i2 @ i3 @ i4 @ i5))
      | _ \<Rightarrow>
          (INVALID,
           [\<lparr>code = invalid_type, path = p, message = invalid_type_default ''object'' v\<rparr>]))"

definition UserSchema ::
  "zod_lib \<Rightarrow> jsstring list \<Rightarrow> json \<Rightarrow> FormData SyncParseReturn \<times> ZodIssue list" where
  "UserSchema lib =
     refine (\<lambda>data. password data = confirmPassword data)
       (lit ''Passwords do not match'') [lit ''confirmPassword'']
       (UserSchema_object lib)"

text \<open>
  What the resolver gets from the schema: the data when the result is valid, the issues
  otherwise.
\<close>

datatype SafeParseReturn = Success FormData | Failure "ZodIssue list"

definition safeParse :: "zod_lib \<Rightarrow> json \<Rightarrow> SafeParseReturn" where
  "safeParse lib input =
     (case UserSchema lib [] input of
        (OK d, issues) \<Rightarrow> Success d
      | (r, issues) \<Rightarrow> Failure issues)"

text \<open>The issues of a validation, and the messages reported at a path.\<close>

definition issues_of :: "SafeParseReturn \<Rightarrow> ZodIssue list" where
  "issues_of r = (case r of Success d \<Rightarrow> [] | Failure issues \<Rightarrow> issues)"

definition issues_at :: "jsstring list \<Rightarrow> ZodIssue list \<Rightarrow> ZodIssue list" where
  "issues_at p issues = filter (\<lambda>i. path i = p) issues"

definition messages_at :: "jsstring list \<Rightarrow> ZodIssue list \<Rightarrow> jsstring list" where
  "messages_at p issues = map message (issues_at p issues)"

text \<open>The code unit of \<open>@\<close>.\<close>

definition at_sign :: "16 word" where
  "at_sign = of_char CHR ''@''"


subsection \<open>The e-mail syntax of zod\<close>

text \<open>
  \<open>email()\<close> tests the string with zod's regular expression \<open>emailRegex\<close>, here as
  in the releases 3.23 and later of zod 3, with the flag \<open>i\<close>. Read from left to right
  it asks for: the start of the string, not followed by a dot, and not followed by any
  run of characters other than line terminators and then two dots; any number of
  characters of the class \<open>A-Z 0-9 _ ' + - .\<close>; one character of the class
  \<open>A-Z 0-9 _ + -\<close>; the character \<open>@\<close>; one or more labels, each a character of
  \<open>A-Z 0-9\<close>, any number of characters of \<open>A-Z 0-9 -\<close> and a dot; two or more
  characters of \<open>A-Z\<close>; the end of the string. With the flag \<open>i\<close> (and without the
  flag \<open>u\<close>) a class of letters matches the ASCII letters of both cases and no other
  code unit.
\<close>

definition in_range :: "char \<Rightarrow> char \<Rightarrow> 16 word \<Rightarrow> bool" where
  "in_range lo hi c \<longleftrightarrow> of_char lo \<le> c \<and> c \<le> of_char hi"

definition is_letter :: "16 word \<Rightarrow> bool" where
  "is_letter c \<longleftrightarrow> in_range CHR ''A'' CHR ''Z'' c \<or> in_range CHR ''a'' CHR ''z'' c"

definition is_alnum :: "16 word \<Rightarrow> bool" where
  "is_alnum c \<longleftrightarrow> is_letter c \<or> in_range CHR ''0'' CHR ''9'' c"

text \<open>The three classes of the expression; \<open>CHR 0x27\<close> is the apostrophe.\<close>

definition local_char :: "16 word \<Rightarrow> bool" where
  "local_char c \<longleftrightarrow> is_alnum c \<or> c \<in> set (lit ''_'' @ lit [CHR 0x27] @ lit ''+-.'')"

definition local_last :: "16 word \<Rightarrow> bool" where
  "local_last c \<longleftrightarrow> is_alnum c \<or> c \<in> set (lit ''_+-'')"

definition label_char :: "16 word \<Rightarrow> bool" where
  "label_char c \<longleftrightarrow> is_alnum c \<or> c \<in> set (lit ''-'')"

definition dot :: "16 word" where
  "dot = of_char CHR ''.''"

definition line_terminator :: "16 word \<Rightarrow> bool" where
  "line_terminator c \<longleftrightarrow> c = 0x000A \<or> c = 0x000D \<or> c = 0x2028 \<or> c = 0x2029"

definition is_label :: "jsstring \<Rightarrow> bool" where
  "is_label p \<longleftrightarrow> (case p of [] \<Rightarrow> False | c # cs \<Rightarrow> is_alnum c \<and> list_all label_char cs)"

definition is_tld :: "jsstring \<Rightarrow> bool" where
  "is_tld p \<longleftrightarrow> 2 \<le> length p \<and> list_all is_letter p"

text \<open>\<open>parts x [] s\<close>: the pieces of \<open>s\<close> between the occurrences of \<open>x\<close>.\<close>

fun parts :: "'a \<Rightarrow> 'a list \<Rightarrow> 'a list \<Rightarrow> 'a list list" where
  "parts x cur [] = [cur]"
| "parts x cur (c # cs) = (if c = x then cur # parts x [] cs else parts x (cur @ [c]) cs)"

text \<open>
  What follows the \<open>@\<close>. No class of a label or of the last part has the dot, so the
  dots of the string are exactly the separators: every piece but the last is a label,
  there is at least one label, and the last piece is two or more letters.
\<close>

definition is_domain :: "jsstring \<Rightarrow> bool" where
  "is_domain d \<longleftrightarrow>
     (let ps = parts dot [] d
      in 2 \<le> length ps \<and> list_all is_label (butlast ps) \<and> is_tld (last ps))"

text \<open>
  \<open>emailRegex.test(s)\<close>. No class before the \<open>@\<close> has the character \<open>@\<close>, so the
  \<open>@\<close> of the expression is the first one of the string, and what precedes it is the
  local part: not empty, its last character of the second class, the others of the
  first.
\<close>

definition emailRegex_test :: "jsstring \<Rightarrow> bool" where
  "emailRegex_test s \<longleftrightarrow>
     \<not> prefix [dot] s \<and>
     \<not> js_includes (takeWhile (\<lambda>c. \<not> line_terminator c) s) [dot, dot] \<and>
     (let l = takeWhile (\<lambda>c. c \<noteq> at_sign) s in
      case dropWhile (\<lambda>c. c \<noteq> at_sign) s of
        [] \<Rightarrow> False
      | a # d \<Rightarrow>
          l \<noteq> [] \<and> list_all local_char (butlast l) \<and> local_last (last l) \<and> is_domain d)"

text \<open>The library with its e-mail syntax; the syntax of URLs stays a parameter.\<close>

definition zod :: "(jsstring \<Rightarrow> bool) \<Rightarrow> zod_lib" where
  "zod url_test = \<lparr>is_email = emailRegex_test, is_url = url_test\<rparr>"

text \<open>
  The expected types of the five fields: a string, or a number that is not \<open>NaN\<close>.
\<close>

fun as_string :: "json \<Rightarrow> jsstring option" where
  "as_string (JStr s) = Some s"
| "as_string v = None"

fun as_number :: "json \<Rightarrow> number option" where
  "as_number (JNum n) = (if n = NaN then None else Some n)"
| "as_number v = None"

definition well_typed :: "(jsstring \<Rightarrow> json option) \<Rightarrow> bool" where
  "well_typed m \<longleftrightarrow>
     as_string (entry m (lit ''email'')) \<noteq> None \<and>
     as_string (entry m (lit ''githubUrl'')) \<noteq> None \<and>
     as_number (entry m (lit ''yearsOfExperience'')) \<noteq> None \<and>
     as_string (entry m (lit ''password'')) \<noteq> None \<and>
     as_string (entry m (lit ''confirmPassword'')) \<noteq> None"

text \<open>The issue of the refinement.\<close>

definition mismatch_issue :: ZodIssue where
  "mismatch_issue =
     \<lparr>code = custom, path = [lit ''confirmPassword''],
      message = lit ''Passwords do not match''\<rparr>"


section \<open>Example inputs\<close>

definition no_errors_shown :: formState where
  "no_errors_shown = \<lparr>errors = Map.empty, alerts = []\<rparr>"

definition password_error_shown :: formState where
  "password_error_shown =
     \<lparr>errors = [Password \<mapsto> \<lparr>error_type = lit ''too_small'',
                                 error_message = JStr (lit ''Password is too short'')\<rparr>],
      alerts = []\<rparr>"

definition response_falsy_email :: json where
  "response_falsy_email =
     JObj [lit ''errors'' \<mapsto>
       JObj [lit ''email'' \<mapsto> JStr [], lit ''password'' \<mapsto> JStr (lit ''bad'')]]"

definition response_no_field_entry :: json where
  "response_no_field_entry =
     JObj [lit ''errors'' \<mapsto> JObj [lit ''username'' \<mapsto> JStr (lit ''taken'')]]"

definition response_email_and_password :: json where
  "response_email_and_password =
     JObj [lit ''errors'' \<mapsto>
       JObj [lit ''email'' \<mapsto> JStr (lit ''Email already registered''),
             lit ''password'' \<mapsto> JStr (lit ''Password too common'')]]"


text \<open>
  A stand-in for the library on the examples below: it accepts the one address and
  the two URLs used there, which zod accepts, and no other string.
\<close>

definition example_lib :: zod_lib where
  "example_lib =
     \<lparr>is_email = (\<lambda>s. s = lit ''dev@example.com''),
      is_url = (\<lambda>s. s = lit ''https://github.com/octocat'' \<or>
                      s = lit ''https://example.com/octocat'')\<rparr>"

text \<open>The raw form values handed to the resolver, and the values used in the examples.\<close>

definition form_values ::
  "json \<Rightarrow> json \<Rightarrow> json \<Rightarrow> json \<Rightarrow> json \<Rightarrow> (jsstring \<Rightarrow> json option)" where
  "form_values e g y pw cpw =
     [lit ''email'' \<mapsto> e, lit ''githubUrl'' \<mapsto> g, lit ''yearsOfExperience'' \<mapsto> y,
      lit ''password'' \<mapsto> pw, lit ''confirmPassword'' \<mapsto> cpw]"

definition good_email :: json where
  "good_email = JStr (lit ''dev@example.com'')"

definition good_url :: json where
  "good_url = JStr (lit ''https://github.com/octocat'')"

definition fractional_years_form :: "jsstring \<Rightarrow> json option" where
  "fractional_years_form =
     form_values good_email good_url (JNum (Fin (3 / 2)))
       (JStr (lit ''Secret123'')) (JStr (lit ''Secret123''))"

definition missing_years_form :: "jsstring \<Rightarrow> json option" where
  "missing_years_form =
     form_values good_email good_url JUndefined
       (JStr (lit ''Secret123'')) (JStr (lit ''Secret123''))"

definition short_password_form :: "jsstring \<Rightarrow> json option" where
  "short_password_form =
     form_values good_email good_url (JNum (Fin 5))
       (JStr (lit ''short'')) (JStr (lit ''Different''))"

definition mismatch_form :: "jsstring \<Rightarrow> json option" where
  "mismatch_form =
     form_values good_email good_url (JNum (Fin 5))
       (JStr (lit ''Secret123'')) (JStr (lit ''Different''))"

definition other_site_form :: "jsstring \<Rightarrow> json option" where
  "other_site_form =
     form_values good_email (JStr (lit ''https://example.com/octocat'')) (JNum (Fin 5))
       (JStr (lit ''Secret123'')) (JStr (lit ''Secret123''))"

definition no_at_form :: "jsstring \<Rightarrow> json option" where
  "no_at_form =
     form_values (JStr (lit ''dev.example.com'')) good_url (JNum (Fin 5))
       (JStr (lit ''Secret123'')) (JStr (lit ''Secret123''))"


section \<open>Strings and property reads\<close>

lemma unat_of_char16: "unat (of_char c :: 16 word) = of_char c"
proof -
  have "(of_char c :: nat) < 256"
    by (cases c) simp
  then have "(of_char c :: nat) < 65536" by linarith
  then have "(of_char c :: nat) < 2 ^ LENGTH(16)" by simp
  then have "unat (of_nat (of_char c) :: 16 word) = of_char c"
    by (simp add: unat_of_nat)
  then show ?thesis by (simp add: of_nat_of_char)
qed

lemma of_char16_eq_iff: "(of_char c :: 16 word) = of_char d \<longleftrightarrow> c = d"
proof
  assume "(of_char c :: 16 word) = of_char d"
  then have "unat (of_char c :: 16 word) = unat (of_char d :: 16 word)" by simp
  then show "c = d" by (simp add: unat_of_char16)
qed simp

lemma lit_eq_iff [simp]: "lit a = lit b \<longleftrightarrow> a = b"
  unfolding lit_def
  by (rule inj_map_eq_map) (simp add: inj_def of_char16_eq_iff)

lemma lit_Nil [simp]: "lit [] = []" "lit s = [] \<longleftrightarrow> s = []" "[] = lit s \<longleftrightarrow> s = []" "length (lit s) = length s"
  by (auto simp add: lit_def)

lemma entry_empty [simp]: "entry Map.empty k = JUndefined"
  by (simp add: entry_def)

lemma entry_upd [simp]: "entry (m(k \<mapsto> v)) k' = (if k' = k then v else entry m k')"
  by (simp add: entry_def)

lemma entry_None: "m k = None \<Longrightarrow> entry m k = JUndefined"
  by (simp add: entry_def)


section \<open>The submission handler\<close>

lemma get_prop_obj: "get_prop (JObj e) k = Inr (entry e k)"
  by simp

lemma find_field_obj:
  "find_field (JObj e) ks = Inr (find (\<lambda>k. truthy (entry e k)) ks)"
  by (induction ks) (simp_all add: entry_def)

lemma field_keys_simp:
  "field_keys = [lit ''email'', lit ''githubUrl'', lit ''yearsOfExperience'', lit ''password'', lit ''confirmPassword'']"
  by (simp add: field_keys_def fieldErrorMapping_def)


lemma try_block_obj:
  assumes "get_prop data (lit ''errors'') = Inr (JObj e)"
  shows "try_block data st =
    (case find (\<lambda>k. truthy (entry e k)) field_keys of
       None \<Rightarrow> Inr st
     | Some k \<Rightarrow> (case map_of fieldErrorMapping k of
          Some name \<Rightarrow> Inr (setError name \<lparr>error_type = lit ''server'', error_message = entry e k\<rparr> st)
        | None \<Rightarrow> Inr st))"
  using assms by (simp add: try_block_def find_field_obj entry_def split: option.splits)


lemma onSubmit_obj:
  assumes "get_prop data (lit ''errors'') = Inr (JObj e)"
  shows "onSubmit (Resolved data) st =
    (case find (\<lambda>k. truthy (entry e k)) field_keys of
       None \<Rightarrow> st
     | Some k \<Rightarrow> (case map_of fieldErrorMapping k of
          Some name \<Rightarrow> setError name \<lparr>error_type = lit ''server'', error_message = entry e k\<rparr> st
        | None \<Rightarrow> st))"
  by (simp add: onSubmit_def try_block_obj [OF assms] split: option.splits)

lemma find_field_no_entry:
  "\<forall>k \<in> set ks. \<not> has_entry errs k \<Longrightarrow>
     find_field errs ks = Inr None \<or> find_field errs ks = Inl TypeError"
proof (induction ks)
  case Nil
  show ?case by simp
next
  case (Cons k ks)
  then show ?case by (cases errs) (auto simp add: entry_None)
qed


lemma find_filter_hd: "filter P xs = k # ks \<Longrightarrow> find P xs = Some k"
  by (induction xs) (auto split: if_splits)

lemma filter_hd_mem: "filter P xs = k # ks \<Longrightarrow> k \<in> set xs"
  by (induction xs) (auto split: if_splits)

text \<open>
  Claim C8. When the request is rejected, the handler shows the one notification
  \<open>Submitting form failed!\<close> and leaves the errors of every field as they were.
\<close>

theorem onSubmit_rejected:
  "errors (onSubmit Rejected st) = errors st \<and>
   alerts (onSubmit Rejected st) = alerts st @ [lit ''Submitting form failed!'']"
  by (simp add: onSubmit_def alert_def)

text \<open>
  Claim C9. When the request resolves and the body has no \<open>errors\<close> property, or its
  \<open>errors\<close> value has no entry for any of the five field names, the handler sets no
  field error: the errors of the form are unchanged. This holds for every body, also one
  that is not an object, and for every \<open>errors\<close> value, also \<open>null\<close>, where the read
  throws and the \<open>catch\<close> block only shows the notification.
\<close>

theorem onSubmit_without_server_errors:
  assumes "\<not> has_entry data (lit ''errors'') \<or>
           (\<exists>errs. get_prop data (lit ''errors'') = Inr errs \<and>
                   (\<forall>k \<in> set field_keys. \<not> has_entry errs k))"
  shows "errors (onSubmit (Resolved data) st) = errors st"
proof -
  have none: "find_field (JObj Map.empty) field_keys = Inr None"
    by (simp add: find_field_obj entry_def find_None_iff)
  from assms show ?thesis
  proof
    assume "\<not> has_entry data (lit ''errors'')"
    then have "get_prop data (lit ''errors'') = Inl TypeError
             \<or> get_prop data (lit ''errors'') = Inr JUndefined"
      by (cases data) (auto simp add: entry_None)
    then show ?thesis
      using none by (auto simp add: onSubmit_def try_block_def alert_def)
  next
    assume "\<exists>errs. get_prop data (lit ''errors'') = Inr errs \<and>
                   (\<forall>k \<in> set field_keys. \<not> has_entry errs k)"
    then obtain errs where g: "get_prop data (lit ''errors'') = Inr errs"
      and n: "\<forall>k \<in> set field_keys. \<not> has_entry errs k" by blast
    show ?thesis
    proof (cases "errs = JUndefined")
      case True
      with g none show ?thesis by (simp add: onSubmit_def try_block_def)
    next
      case False
      then have "(case errs of JUndefined \<Rightarrow> JObj Map.empty | _ \<Rightarrow> errs) = errs"
        by (cases errs) simp_all
      with g find_field_no_entry [OF n] show ?thesis
        by (auto simp add: onSubmit_def try_block_def alert_def)
    qed
  qed
qed

text \<open>
  An instance: a response whose \<open>errors\<close> object only has the unknown key
  \<open>username\<close> leaves a local password error as it was.
\<close>

theorem onSubmit_without_server_errors_witness:
  "get_prop response_no_field_entry (lit ''errors'') =
     Inr (JObj [lit ''username'' \<mapsto> JStr (lit ''taken'')])
   \<and> \<not> has_entry (JObj [lit ''username'' \<mapsto> JStr (lit ''taken'')]) (lit ''email'')
   \<and> errors (onSubmit (Resolved response_no_field_entry) password_error_shown) =
       errors password_error_shown"
proof -
  have g: "get_prop response_no_field_entry (lit ''errors'') =
     Inr (JObj [lit ''username'' \<mapsto> JStr (lit ''taken'')])"
    by (simp add: response_no_field_entry_def)
  have n: "\<forall>k \<in> set field_keys. \<not> has_entry (JObj [lit ''username'' \<mapsto> JStr (lit ''taken'')]) k"
    by (simp add: field_keys_simp)
  from g n have "\<not> has_entry response_no_field_entry (lit ''errors'') \<or>
           (\<exists>errs. get_prop response_no_field_entry (lit ''errors'') = Inr errs \<and>
                   (\<forall>k \<in> set field_keys. \<not> has_entry errs k))"
    by blast
  from onSubmit_without_server_errors [OF this, of password_error_shown] g n
  show ?thesis by simp
qed



text \<open>
  Claim C1, as stated, speaks of the first field that has an entry. It fails on a
  response whose \<open>errors\<close> object has the entries \<open>email: ""\<close> and
  \<open>password: "bad"\<close>: both fields carry an entry and \<open>email\<close> is the first, yet no
  error is set on \<open>email\<close> and the server error is set on the later field \<open>password\<close>.
\<close>

theorem onSubmit_falsy_first_entry_counterexample:
  "has_entry (JObj [lit ''email'' \<mapsto> JStr [], lit ''password'' \<mapsto> JStr (lit ''bad'')])
     (lit ''email'')
   \<and> has_entry (JObj [lit ''email'' \<mapsto> JStr [], lit ''password'' \<mapsto> JStr (lit ''bad'')])
     (lit ''password'')
   \<and> get_prop response_falsy_email (lit ''errors'') =
       Inr (JObj [lit ''email'' \<mapsto> JStr [], lit ''password'' \<mapsto> JStr (lit ''bad'')])
   \<and> errors (onSubmit (Resolved response_falsy_email) no_errors_shown) Email = None
   \<and> errors (onSubmit (Resolved response_falsy_email) no_errors_shown) Password =
       Some \<lparr>error_type = lit ''server'', error_message = JStr (lit ''bad'')\<rparr>"
  by (simp add: response_falsy_email_def no_errors_shown_def onSubmit_def try_block_def
      field_keys_simp fieldErrorMapping_def setError_def)

text \<open>
  Claim C1, amended. When the \<open>errors\<close> object has truthy entries for more than one of
  the five field names, the handler sets a field error only on the first of them in the
  order \<open>email\<close>, \<open>githubUrl\<close>, \<open>yearsOfExperience\<close>, \<open>password\<close>,
  \<open>confirmPassword\<close>, with the type \<open>server\<close> and the message of the server; the error
  of every other field is unchanged.
\<close>

theorem onSubmit_first_reported_only:
  assumes errs: "get_prop data (lit ''errors'') = Inr (JObj e)"
    and reported: "filter (\<lambda>k. truthy (entry e k)) field_keys = k # k' # ks"
  shows "\<exists>name. (k, name) \<in> set fieldErrorMapping \<and>
           errors (onSubmit (Resolved data) st) name =
             Some \<lparr>error_type = lit ''server'', error_message = entry e k\<rparr> \<and>
           (\<forall>other. other \<noteq> name \<longrightarrow>
              errors (onSubmit (Resolved data) st) other = errors st other)"
proof -
  have "find (\<lambda>k. truthy (entry e k)) field_keys = Some k"
    using reported by (rule find_filter_hd)
  moreover have "k \<in> set field_keys"
    using reported by (rule filter_hd_mem)
  then obtain name where n: "map_of fieldErrorMapping k = Some name"
    unfolding field_keys_def by (metis map_of_eq_None_iff not_Some_eq set_map)
  ultimately have "onSubmit (Resolved data) st =
      setError name \<lparr>error_type = lit ''server'', error_message = entry e k\<rparr> st"
    by (simp add: onSubmit_obj [OF errs])
  moreover have "(k, name) \<in> set fieldErrorMapping"
    using n by (rule map_of_SomeD)
  ultimately show ?thesis
    by (auto simp add: setError_def)
qed

text \<open>
  An instance: messages for \<open>email\<close> and \<open>password\<close> set the server error on
  \<open>email\<close> and leave the local error of \<open>password\<close>.
\<close>

theorem onSubmit_first_reported_only_witness:
  "get_prop response_email_and_password (lit ''errors'') =
     Inr (JObj [lit ''email'' \<mapsto> JStr (lit ''Email already registered''),
                lit ''password'' \<mapsto> JStr (lit ''Password too common'')])
   \<and> errors (onSubmit (Resolved response_email_and_password) password_error_shown) Email =
       Some \<lparr>error_type = lit ''server'', error_message = JStr (lit ''Email already registered'')\<rparr>
   \<and> errors (onSubmit (Resolved response_email_and_password) password_error_shown) Password =
       errors password_error_shown Password"
proof -
  let ?e = "[lit ''email'' \<mapsto> JStr (lit ''Email already registered''),
             lit ''password'' \<mapsto> JStr (lit ''Password too common'')]"
  have g: "get_prop response_email_and_password (lit ''errors'') = Inr (JObj ?e)"
    by (simp add: response_email_and_password_def)
  have f: "filter (\<lambda>k. truthy (entry ?e k)) field_keys = lit ''email'' # lit ''password'' # []"
    by (simp add: field_keys_simp entry_def)
  have m: "\<And>name. (lit ''email'', name) \<in> set fieldErrorMapping \<Longrightarrow> name = Email"
    by (auto simp add: fieldErrorMapping_def)
  from onSubmit_first_reported_only [OF g f, of password_error_shown]
  obtain name where n: "(lit ''email'', name) \<in> set fieldErrorMapping"
    and s: "errors (onSubmit (Resolved response_email_and_password) password_error_shown) name =
             Some \<lparr>error_type = lit ''server'', error_message = entry ?e (lit ''email'')\<rparr>"
    and o: "\<forall>other. other \<noteq> name \<longrightarrow>
              errors (onSubmit (Resolved response_email_and_password) password_error_shown) other
                = errors password_error_shown other"
    by blast
  from m [OF n] s o g show ?thesis
    by (simp add: entry_def)
qed


section \<open>The validation schema: structure of the issues\<close>

lemma js_includes_iff: "js_includes s sub \<longleftrightarrow> (\<exists>a b. s = a @ sub @ b)"
proof -
  have "js_includes s sub \<longleftrightarrow> sublist sub s"
    by (induction s) (simp_all add: sublist_Cons_right)
  then show ?thesis by (simp add: sublist_def)
qed

lemma string_check_issues_path: "i \<in> set (string_check_issues lib p s c) \<Longrightarrow> path i = p"
  by (cases c) (auto split: if_splits)

lemma ZodString_parse_path: "i \<in> set (snd (ZodString_parse lib cs p v)) \<Longrightarrow> path i = p"
  by (cases v) (auto simp add: ZodString_parse_def Let_def dest: string_check_issues_path)

lemma number_check_issues_path: "i \<in> set (number_check_issues p n c) \<Longrightarrow> path i = p"
  by (cases c) (auto split: if_splits)

lemma ZodNumber_parse_path: "i \<in> set (snd (ZodNumber_parse re ite cs p v)) \<Longrightarrow> path i = p"
  by (cases v) (auto simp add: ZodNumber_parse_def Let_def dest: number_check_issues_path split: if_splits)

lemma ZodString_parse_OK:
  "fst (ZodString_parse lib cs p v) = OK s \<Longrightarrow> snd (ZodString_parse lib cs p v) = []"
  by (cases v) (simp_all add: ZodString_parse_def Let_def split: if_splits)

lemma ZodNumber_parse_OK:
  "fst (ZodNumber_parse re ite cs p v) = OK n \<Longrightarrow> snd (ZodNumber_parse re ite cs p v) = []"
  by (cases v) (simp_all add: ZodNumber_parse_def Let_def split: if_splits)

lemma merge_field_value:
  "value_of (merge_field rf r) =
     (case value_of rf of None \<Rightarrow> None
      | Some f \<Rightarrow> (case value_of r of None \<Rightarrow> None | Some x \<Rightarrow> Some (f x)))"
  by (cases rf; cases r) simp_all

lemma merge_field_OK:
  "merge_field rf r = OK y \<Longrightarrow> \<exists>f x. rf = OK f \<and> r = OK x \<and> y = f x"
  by (cases rf; cases r) simp_all

lemma as_string_Some: "as_string v = Some s \<longleftrightarrow> v = JStr s"
  by (cases v) auto

lemma as_number_Some: "as_number v = Some n \<longleftrightarrow> v = JNum n \<and> n \<noteq> NaN"
  by (cases v) auto

lemma ZodString_parse_as_string:
  "value_of (fst (ZodString_parse lib cs p v)) = as_string v"
  by (cases v) (simp_all add: ZodString_parse_def Let_def)

lemma ZodNumber_parse_as_number:
  "value_of (fst (ZodNumber_parse re ite cs p v)) = as_number v"
  by (cases v) (simp_all add: ZodNumber_parse_def Let_def)

text \<open>The issues the five fields add, in the order of the shape.\<close>

lemma UserSchema_object_issues:
  "snd (UserSchema_object lib p (JObj m)) =
     snd (email_schema lib (p @ [lit ''email'']) (entry m (lit ''email''))) @
     snd (githubUrl_schema lib (p @ [lit ''githubUrl'']) (entry m (lit ''githubUrl''))) @
     snd (yearsOfExperience_schema (p @ [lit ''yearsOfExperience''])
            (entry m (lit ''yearsOfExperience''))) @
     snd (password_schema lib (p @ [lit ''password'']) (entry m (lit ''password''))) @
     snd (confirmPassword_schema lib (p @ [lit ''confirmPassword''])
            (entry m (lit ''confirmPassword'')))"
  by (simp add: UserSchema_object_def split: prod.splits)

lemma UserSchema_object_fst:
  "fst (UserSchema_object lib p (JObj m)) =
     merge_field (merge_field (merge_field (merge_field (merge_field
       (OK (\<lambda>a b c d e. \<lparr>email = a, githubUrl = b, yearsOfExperience = c,
                            password = d, confirmPassword = e\<rparr>))
       (fst (email_schema lib (p @ [lit ''email'']) (entry m (lit ''email'')))))
       (fst (githubUrl_schema lib (p @ [lit ''githubUrl'']) (entry m (lit ''githubUrl'')))))
       (fst (yearsOfExperience_schema (p @ [lit ''yearsOfExperience''])
              (entry m (lit ''yearsOfExperience'')))))
       (fst (password_schema lib (p @ [lit ''password'']) (entry m (lit ''password'')))))
       (fst (confirmPassword_schema lib (p @ [lit ''confirmPassword''])
              (entry m (lit ''confirmPassword''))))"
  by (simp add: UserSchema_object_def split: prod.splits)

lemmas field_schema_defs =
  email_schema_def githubUrl_schema_def yearsOfExperience_schema_def
  password_schema_def confirmPassword_schema_def

lemma UserSchema_object_value:
  "value_of (fst (UserSchema_object lib p (JObj m))) =
     (case as_string (entry m (lit ''email'')) of None \<Rightarrow> None | Some a \<Rightarrow>
      case as_string (entry m (lit ''githubUrl'')) of None \<Rightarrow> None | Some b \<Rightarrow>
      case as_number (entry m (lit ''yearsOfExperience'')) of None \<Rightarrow> None | Some c \<Rightarrow>
      case as_string (entry m (lit ''password'')) of None \<Rightarrow> None | Some d \<Rightarrow>
      case as_string (entry m (lit ''confirmPassword'')) of None \<Rightarrow> None | Some e \<Rightarrow>
        Some \<lparr>email = a, githubUrl = b, yearsOfExperience = c,
              password = d, confirmPassword = e\<rparr>)"
  unfolding UserSchema_object_fst merge_field_value field_schema_defs
    ZodString_parse_as_string ZodNumber_parse_as_number
  by (simp split: option.splits)

lemma UserSchema_object_aborted:
  "fst (UserSchema_object lib p (JObj m)) = INVALID \<longleftrightarrow> \<not> well_typed m"
proof -
  have "fst (UserSchema_object lib p (JObj m)) = INVALID \<longleftrightarrow>
        value_of (fst (UserSchema_object lib p (JObj m))) = None"
    by (cases "fst (UserSchema_object lib p (JObj m))") simp_all
  then show ?thesis
    unfolding UserSchema_object_value well_typed_def
    by (auto split: option.splits)
qed

lemma UserSchema_object_passwords:
  assumes "value_of (fst (UserSchema_object lib p (JObj m))) = Some d"
  shows "entry m (lit ''password'') = JStr (password d)"
    and "entry m (lit ''confirmPassword'') = JStr (confirmPassword d)"
  using assms unfolding UserSchema_object_value
  by (auto split: option.splits simp add: as_string_Some)

lemma refine_snd:
  "snd (refine check msg rp inner p v) =
     snd (inner p v) @
     (case value_of (fst (inner p v)) of
        None \<Rightarrow> []
      | Some d \<Rightarrow> if check d then [] else [\<lparr>code = custom, path = p @ rp, message = msg\<rparr>])"
proof (cases "inner p v")
  case (Pair r iss)
  then show ?thesis by (cases r) (simp_all add: refine_def)
qed

lemma refine_fst_OK:
  "fst (refine check msg rp inner p v) = OK d \<longleftrightarrow> fst (inner p v) = OK d \<and> check d"
proof (cases "inner p v")
  case (Pair r iss)
  then show ?thesis by (cases r) (auto simp add: refine_def)
qed

lemma UserSchema_issues:
  "snd (UserSchema lib [] (JObj m)) =
     snd (UserSchema_object lib [] (JObj m)) @
     (if well_typed m \<and> entry m (lit ''password'') \<noteq> entry m (lit ''confirmPassword'')
      then [mismatch_issue] else [])"
proof (cases "value_of (fst (UserSchema_object lib [] (JObj m)))")
  case None
  then have "fst (UserSchema_object lib [] (JObj m)) = INVALID"
    by (cases "fst (UserSchema_object lib [] (JObj m))") simp_all
  then have "\<not> well_typed m" by (simp add: UserSchema_object_aborted)
  with None show ?thesis by (simp add: UserSchema_def refine_snd)
next
  case (Some d)
  then have "fst (UserSchema_object lib [] (JObj m)) \<noteq> INVALID" by auto
  then have "well_typed m" by (simp add: UserSchema_object_aborted)
  with Some UserSchema_object_passwords [OF Some] show ?thesis
    by (simp add: UserSchema_def refine_snd mismatch_issue_def)
qed

lemma UserSchema_object_OK_issues:
  assumes "fst (UserSchema_object lib p (JObj m)) = OK d"
  shows "snd (UserSchema_object lib p (JObj m)) = []"
proof -
  from assms [unfolded UserSchema_object_fst]
  obtain f5 x5 where m5: "merge_field (merge_field (merge_field (merge_field
       (OK (\<lambda>a b c d e. \<lparr>email = a, githubUrl = b, yearsOfExperience = c,
                            password = d, confirmPassword = e\<rparr>))
       (fst (email_schema lib (p @ [lit ''email'']) (entry m (lit ''email'')))))
       (fst (githubUrl_schema lib (p @ [lit ''githubUrl'']) (entry m (lit ''githubUrl'')))))
       (fst (yearsOfExperience_schema (p @ [lit ''yearsOfExperience''])
              (entry m (lit ''yearsOfExperience'')))))
       (fst (password_schema lib (p @ [lit ''password'']) (entry m (lit ''password'')))) = OK f5"
    and r5: "fst (confirmPassword_schema lib (p @ [lit ''confirmPassword''])
              (entry m (lit ''confirmPassword''))) = OK x5"
    by (blast dest: merge_field_OK)
  from m5 obtain f4 x4 where m4: "merge_field (merge_field (merge_field
       (OK (\<lambda>a b c d e. \<lparr>email = a, githubUrl = b, yearsOfExperience = c,
                            password = d, confirmPassword = e\<rparr>))
       (fst (email_schema lib (p @ [lit ''email'']) (entry m (lit ''email'')))))
       (fst (githubUrl_schema lib (p @ [lit ''githubUrl'']) (entry m (lit ''githubUrl'')))))
       (fst (yearsOfExperience_schema (p @ [lit ''yearsOfExperience''])
              (entry m (lit ''yearsOfExperience'')))) = OK f4"
    and r4: "fst (password_schema lib (p @ [lit ''password'']) (entry m (lit ''password''))) = OK x4"
    by (blast dest: merge_field_OK)
  from m4 obtain f3 x3 where m3: "merge_field (merge_field
       (OK (\<lambda>a b c d e. \<lparr>email = a, githubUrl = b, yearsOfExperience = c,
                            password = d, confirmPassword = e\<rparr>))
       (fst (email_schema lib (p @ [lit ''email'']) (entry m (lit ''email'')))))
       (fst (githubUrl_schema lib (p @ [lit ''githubUrl'']) (entry m (lit ''githubUrl'')))) = OK f3"
    and r3: "fst (yearsOfExperience_schema (p @ [lit ''yearsOfExperience''])
              (entry m (lit ''yearsOfExperience''))) = OK x3"
    by (blast dest: merge_field_OK)
  from m3 obtain f2 x2 where m2: "merge_field
       (OK (\<lambda>a b c d e. \<lparr>email = a, githubUrl = b, yearsOfExperience = c,
                            password = d, confirmPassword = e\<rparr>))
       (fst (email_schema lib (p @ [lit ''email'']) (entry m (lit ''email'')))) = OK f2"
    and r2: "fst (githubUrl_schema lib (p @ [lit ''githubUrl'']) (entry m (lit ''githubUrl''))) = OK x2"
    by (blast dest: merge_field_OK)
  from m2 obtain x1 where
    r1: "fst (email_schema lib (p @ [lit ''email'']) (entry m (lit ''email''))) = OK x1"
    by (blast dest: merge_field_OK)
  show ?thesis
    unfolding UserSchema_object_issues
    using r1 r2 r3 r4 r5
    by (simp add: field_schema_defs ZodString_parse_OK ZodNumber_parse_OK)
qed

lemma issues_of_safeParse:
  "issues_of (safeParse lib (JObj m)) = snd (UserSchema lib [] (JObj m))"
proof (cases "UserSchema lib [] (JObj m)")
  case (Pair r iss)
  show ?thesis
  proof (cases r)
    case (OK d)
    with Pair have "fst (UserSchema lib [] (JObj m)) = OK d" by simp
    then have o: "fst (UserSchema_object lib [] (JObj m)) = OK d"
      and c: "password d = confirmPassword d"
      by (simp_all add: UserSchema_def refine_fst_OK)
    from o have v: "value_of (fst (UserSchema_object lib [] (JObj m))) = Some d" by simp
    have "snd (UserSchema lib [] (JObj m)) = []"
      unfolding UserSchema_issues
      using c UserSchema_object_passwords [OF v] UserSchema_object_OK_issues [OF o] by simp
    with Pair OK show ?thesis
      by (simp add: issues_of_def safeParse_def)
  next
    case (DIRTY d)
    with Pair show ?thesis by (simp add: issues_of_def safeParse_def)
  next
    case INVALID
    with Pair show ?thesis by (simp add: issues_of_def safeParse_def)
  qed
qed

lemma issues_at_append: "issues_at p (a @ b) = issues_at p a @ issues_at p b"
  by (simp add: issues_at_def)

lemma issues_at_other: "(\<And>i. i \<in> set iss \<Longrightarrow> path i = q) \<Longrightarrow> q \<noteq> p \<Longrightarrow> issues_at p iss = []"
  by (auto simp add: issues_at_def filter_empty_conv)

lemma issues_at_same: "(\<And>i. i \<in> set iss \<Longrightarrow> path i = p) \<Longrightarrow> issues_at p iss = iss"
  by (auto simp add: issues_at_def filter_id_conv)

lemma field_issue_paths:
  "i \<in> set (snd (email_schema lib p v)) \<Longrightarrow> path i = p"
  "i \<in> set (snd (githubUrl_schema lib p v)) \<Longrightarrow> path i = p"
  "i \<in> set (snd (yearsOfExperience_schema p v)) \<Longrightarrow> path i = p"
  "i \<in> set (snd (password_schema lib p v)) \<Longrightarrow> path i = p"
  "i \<in> set (snd (confirmPassword_schema lib p v)) \<Longrightarrow> path i = p"
  unfolding field_schema_defs
  by (erule ZodString_parse_path ZodNumber_parse_path)+

lemma all_issues:
  "issues_of (safeParse lib (JObj m)) =
     snd (email_schema lib [lit ''email''] (entry m (lit ''email''))) @
     snd (githubUrl_schema lib [lit ''githubUrl''] (entry m (lit ''githubUrl''))) @
     snd (yearsOfExperience_schema [lit ''yearsOfExperience'']
            (entry m (lit ''yearsOfExperience''))) @
     snd (password_schema lib [lit ''password''] (entry m (lit ''password''))) @
     snd (confirmPassword_schema lib [lit ''confirmPassword'']
            (entry m (lit ''confirmPassword''))) @
     (if well_typed m \<and> entry m (lit ''password'') \<noteq> entry m (lit ''confirmPassword'')
      then [mismatch_issue] else [])"
  by (simp add: issues_of_safeParse UserSchema_issues UserSchema_object_issues)

lemma issues_at_mismatch:
  "p \<noteq> [lit ''confirmPassword''] \<Longrightarrow> issues_at p (if c then [mismatch_issue] else []) = []"
  by (simp add: issues_at_def mismatch_issue_def)

lemma issues_at_email:
  "issues_at [lit ''email''] (issues_of (safeParse lib (JObj m))) =
     snd (email_schema lib [lit ''email''] (entry m (lit ''email'')))"
  unfolding all_issues issues_at_append
  by (simp add: issues_at_mismatch
      issues_at_same [OF field_issue_paths(1)]
      issues_at_other [OF field_issue_paths(2)]
      issues_at_other [OF field_issue_paths(3)]
      issues_at_other [OF field_issue_paths(4)]
      issues_at_other [OF field_issue_paths(5)])

lemma issues_at_githubUrl:
  "issues_at [lit ''githubUrl''] (issues_of (safeParse lib (JObj m))) =
     snd (githubUrl_schema lib [lit ''githubUrl''] (entry m (lit ''githubUrl'')))"
  unfolding all_issues issues_at_append
  by (simp add: issues_at_mismatch
      issues_at_other [OF field_issue_paths(1)]
      issues_at_same [OF field_issue_paths(2)]
      issues_at_other [OF field_issue_paths(3)]
      issues_at_other [OF field_issue_paths(4)]
      issues_at_other [OF field_issue_paths(5)])

lemma issues_at_yearsOfExperience:
  "issues_at [lit ''yearsOfExperience''] (issues_of (safeParse lib (JObj m))) =
     snd (yearsOfExperience_schema [lit ''yearsOfExperience'']
            (entry m (lit ''yearsOfExperience'')))"
  unfolding all_issues issues_at_append
  by (simp add: issues_at_mismatch
      issues_at_other [OF field_issue_paths(1)]
      issues_at_other [OF field_issue_paths(2)]
      issues_at_same [OF field_issue_paths(3)]
      issues_at_other [OF field_issue_paths(4)]
      issues_at_other [OF field_issue_paths(5)])

lemma issues_at_password:
  "issues_at [lit ''password''] (issues_of (safeParse lib (JObj m))) =
     snd (password_schema lib [lit ''password''] (entry m (lit ''password'')))"
  unfolding all_issues issues_at_append
  by (simp add: issues_at_mismatch
      issues_at_other [OF field_issue_paths(1)]
      issues_at_other [OF field_issue_paths(2)]
      issues_at_other [OF field_issue_paths(3)]
      issues_at_same [OF field_issue_paths(4)]
      issues_at_other [OF field_issue_paths(5)])


section \<open>The validation schema: the rules of the fields\<close>

lemma password_schema_issues:
  "snd (password_schema lib p v) =
     (case v of
        JStr s \<Rightarrow>
          (if length s < 8 then [\<lparr>code = too_small, path = p, message = lit ''Password is too short''\<rparr>]
           else if 20 < length s then [\<lparr>code = too_big, path = p, message = lit ''Password is too long''\<rparr>]
           else [])
      | _ \<Rightarrow> [\<lparr>code = invalid_type, path = p, message = invalid_type_default ''string'' v\<rparr>])"
  by (cases v) (simp_all add: password_schema_def ZodString_parse_def Let_def)

lemma yearsOfExperience_schema_issues:
  "snd (yearsOfExperience_schema p v) =
     (case v of
        JNum n \<Rightarrow>
          (if n = NaN then
             [\<lparr>code = invalid_type, path = p, message = lit ''Years of Experience is required''\<rparr>]
           else
             (if number_less n (Fin 1)
              then [\<lparr>code = too_small, path = p,
                     message = lit ''Number must be greater than or equal to 1''\<rparr>] else []) @
             (if number_less (Fin 10) n
              then [\<lparr>code = too_big, path = p,
                     message = lit ''Number must be less than or equal to 10''\<rparr>] else []))
      | JUndefined \<Rightarrow> [\<lparr>code = invalid_type, path = p, message = lit ''required field''\<rparr>]
      | _ \<Rightarrow> [\<lparr>code = invalid_type, path = p, message = lit ''Years of Experience is required''\<rparr>])"
  by (cases v) (simp_all add: yearsOfExperience_schema_def ZodNumber_parse_def Let_def)

lemma githubUrl_schema_issues:
  "snd (githubUrl_schema lib p v) =
     (case v of
        JStr s \<Rightarrow>
          (if is_url lib s then []
           else [\<lparr>code = invalid_string, path = p, message = lit ''Invalid url''\<rparr>]) @
          (if js_includes s (lit ''github.com'') then []
           else [\<lparr>code = invalid_string, path = p, message = lit ''Invalid GitHub URL''\<rparr>])
      | _ \<Rightarrow> [\<lparr>code = invalid_type, path = p, message = invalid_type_default ''string'' v\<rparr>])"
  by (cases v) (simp_all add: githubUrl_schema_def ZodString_parse_def Let_def)

lemma email_schema_issues:
  "snd (email_schema lib p v) =
     (case v of
        JStr s \<Rightarrow>
          (if is_email lib s then []
           else [\<lparr>code = invalid_string, path = p, message = lit ''Invalid email''\<rparr>])
      | _ \<Rightarrow> [\<lparr>code = invalid_type, path = p, message = invalid_type_default ''string'' v\<rparr>])"
  by (cases v) (simp_all add: email_schema_def ZodString_parse_def Let_def)

lemma issues_at_subset: "set (issues_at p iss) \<subseteq> set iss"
  by (auto simp add: issues_at_def)

lemma confirmPassword_schema_issues:
  "snd (confirmPassword_schema lib p v) =
     (case v of
        JStr s \<Rightarrow> []
      | _ \<Rightarrow> [\<lparr>code = invalid_type, path = p, message = invalid_type_default ''string'' v\<rparr>])"
  by (cases v) (simp_all add: confirmPassword_schema_def ZodString_parse_def Let_def)

lemma field_messages:
  "i \<in> set (snd (email_schema lib p v)) \<Longrightarrow> message i \<noteq> lit ''Passwords do not match''"
  "i \<in> set (snd (githubUrl_schema lib p v)) \<Longrightarrow> message i \<noteq> lit ''Passwords do not match''"
  "i \<in> set (snd (yearsOfExperience_schema p v)) \<Longrightarrow> message i \<noteq> lit ''Passwords do not match''"
  "i \<in> set (snd (password_schema lib p v)) \<Longrightarrow> message i \<noteq> lit ''Passwords do not match''"
  "i \<in> set (snd (confirmPassword_schema lib p v)) \<Longrightarrow> message i \<noteq> lit ''Passwords do not match''"
  unfolding email_schema_issues githubUrl_schema_issues yearsOfExperience_schema_issues
    password_schema_issues confirmPassword_schema_issues
  by (cases v; auto simp add: invalid_type_default_def split: if_splits)+

lemma mismatch_message: "message mismatch_issue = lit ''Passwords do not match''"
  by (simp add: mismatch_issue_def)

lemma message_mismatch_iff:
  "i \<in> set (issues_of (safeParse lib (JObj m))) \<Longrightarrow>
   message i = lit ''Passwords do not match'' \<longleftrightarrow>
     i = mismatch_issue \<and> well_typed m \<and>
     entry m (lit ''password'') \<noteq> entry m (lit ''confirmPassword'')"
  unfolding all_issues
  by (auto simp add: mismatch_message dest: field_messages split: if_splits)

lemma mismatch_mem_iff:
  "mismatch_issue \<in> set (issues_of (safeParse lib (JObj m))) \<longleftrightarrow>
     well_typed m \<and> entry m (lit ''password'') \<noteq> entry m (lit ''confirmPassword'')"
proof
  assume "mismatch_issue \<in> set (issues_of (safeParse lib (JObj m)))"
  from message_mismatch_iff [OF this] show
    "well_typed m \<and> entry m (lit ''password'') \<noteq> entry m (lit ''confirmPassword'')"
    by (simp add: mismatch_message)
next
  assume "well_typed m \<and> entry m (lit ''password'') \<noteq> entry m (lit ''confirmPassword'')"
  then show "mismatch_issue \<in> set (issues_of (safeParse lib (JObj m)))"
    unfolding all_issues by simp
qed

lemma safeParse_fields_pass:
  assumes "entry m (lit ''email'') = JStr e" "is_email lib e"
    and "entry m (lit ''githubUrl'') = JStr g" "is_url lib g" "js_includes g (lit ''github.com'')"
    and "entry m (lit ''yearsOfExperience'') = JNum (Fin y)" "1 \<le> y" "y \<le> 10"
    and "entry m (lit ''password'') = JStr s" "8 \<le> length s" "length s \<le> 20"
    and "entry m (lit ''confirmPassword'') = JStr c"
  shows "safeParse lib (JObj m) =
     (if s = c
      then Success \<lparr>email = e, githubUrl = g, yearsOfExperience = Fin y,
                    password = s, confirmPassword = c\<rparr>
      else Failure [mismatch_issue])"
  using assms
  by (simp add: safeParse_def UserSchema_def refine_def UserSchema_object_def field_schema_defs
      ZodString_parse_def ZodNumber_parse_def mismatch_issue_def)

lemma entry_form_values:
  "entry (form_values e g y pw cpw) (lit ''email'') = e"
  "entry (form_values e g y pw cpw) (lit ''githubUrl'') = g"
  "entry (form_values e g y pw cpw) (lit ''yearsOfExperience'') = y"
  "entry (form_values e g y pw cpw) (lit ''password'') = pw"
  "entry (form_values e g y pw cpw) (lit ''confirmPassword'') = cpw"
  by (simp_all add: form_values_def)

lemmas example_defs =
  good_email_def good_url_def example_lib_def entry_form_values

lemma good_url_includes:
  "js_includes (lit ''https://github.com/octocat'') (lit ''github.com'')"
  by (simp add: lit_def)

lemmas schema_defs =
  safeParse_def UserSchema_def refine_def UserSchema_object_def field_schema_defs
  ZodString_parse_def ZodNumber_parse_def


section \<open>The validation schema: the claims\<close>

text \<open>
  A field is accepted by the validation when no issue is reported at its path. The
  input \<open>JObj m\<close> is any object; a field that is absent reads as \<open>undefined\<close>.
\<close>

text \<open>
  Claim C4. The password is accepted exactly when it is a string whose length is
  between 8 and 20 inclusive; a shorter one is reported with \<open>Password is too short\<close>
  and a longer one with \<open>Password is too long\<close>, and with nothing else.
\<close>

theorem password_length_rule:
  "(issues_at [lit ''password''] (issues_of (safeParse lib (JObj m))) = [] \<longleftrightarrow>
      (\<exists>s. entry m (lit ''password'') = JStr s \<and> 8 \<le> length s \<and> length s \<le> 20))
   \<and> (\<forall>s. entry m (lit ''password'') = JStr s \<and> length s < 8 \<longrightarrow>
          messages_at [lit ''password''] (issues_of (safeParse lib (JObj m))) =
            [lit ''Password is too short''])
   \<and> (\<forall>s. entry m (lit ''password'') = JStr s \<and> 20 < length s \<longrightarrow>
          messages_at [lit ''password''] (issues_of (safeParse lib (JObj m))) =
            [lit ''Password is too long''])"
  unfolding messages_at_def issues_at_password password_schema_issues
  by (cases "entry m (lit ''password'')") auto

text \<open>
  An instance: the password \<open>short\<close>.
\<close>

theorem password_length_rule_witness:
  "entry short_password_form (lit ''password'') = JStr (lit ''short'')
   \<and> length (lit ''short'') < 8
   \<and> messages_at [lit ''password''] (issues_of (safeParse example_lib (JObj short_password_form)))
       = [lit ''Password is too short'']"
  using password_length_rule [of example_lib short_password_form]
  by (simp add: short_password_form_def example_defs)

text \<open>
  Claim C2, as stated, has every value that is not an integer rejected. The schema is
  \<open>z.number().min(1).max(10)\<close>, with no \<open>int()\<close>: the value \<open>3 / 2\<close> is not an integer,
  and the whole record validates.
\<close>

theorem fractional_years_counterexample:
  "(3 / 2 :: rat) \<notin> \<int>
   \<and> safeParse example_lib (JObj fractional_years_form) =
       Success \<lparr>email = lit ''dev@example.com'', githubUrl = lit ''https://github.com/octocat'',
                yearsOfExperience = Fin (3 / 2), password = lit ''Secret123'',
                confirmPassword = lit ''Secret123''\<rparr>"
  by (simp add: fractional_years_form_def form_values_def good_email_def good_url_def
      example_lib_def schema_defs good_url_includes)

text \<open>
  Claim C2, amended. \<open>yearsOfExperience\<close> is accepted exactly when it is a finite
  number between 1 and 10 inclusive, integer or not.
\<close>

theorem yearsOfExperience_range_rule:
  "issues_at [lit ''yearsOfExperience''] (issues_of (safeParse lib (JObj m))) = [] \<longleftrightarrow>
     (\<exists>q. entry m (lit ''yearsOfExperience'') = JNum (Fin q) \<and> 1 \<le> q \<and> q \<le> 10)"
proof (cases "entry m (lit ''yearsOfExperience'')")
  case (JNum n)
  then show ?thesis
    unfolding issues_at_yearsOfExperience yearsOfExperience_schema_issues
    by (cases n) auto
qed (simp_all add: issues_at_yearsOfExperience yearsOfExperience_schema_issues)

text \<open>
  An instance: the value \<open>3 / 2\<close> is accepted.
\<close>

theorem yearsOfExperience_range_rule_witness:
  "entry fractional_years_form (lit ''yearsOfExperience'') = JNum (Fin (3 / 2))
   \<and> issues_at [lit ''yearsOfExperience'']
        (issues_of (safeParse example_lib (JObj fractional_years_form))) = []"
proof -
  have e: "entry fractional_years_form (lit ''yearsOfExperience'') = JNum (Fin (3 / 2))"
    by (simp add: fractional_years_form_def example_defs)
  then have "\<exists>q. entry fractional_years_form (lit ''yearsOfExperience'') = JNum (Fin q) \<and>
      1 \<le> q \<and> q \<le> 10"
    by (intro exI [of _ "3 / 2"]) simp
  with e yearsOfExperience_range_rule [of example_lib fractional_years_form]
  show ?thesis by blast
qed

text \<open>
  Claim C3. For \<open>yearsOfExperience\<close>: 0 is reported as too small and 11 as too big,
  1 and 10 are accepted; an absent value is reported with \<open>required field\<close>; a present
  value that is not a number (\<open>NaN\<close> included) is reported with
  \<open>Years of Experience is required\<close>; the two messages differ.
\<close>

theorem yearsOfExperience_messages:
  "(entry m (lit ''yearsOfExperience'') = JNum (Fin 0) \<longrightarrow>
      issues_at [lit ''yearsOfExperience''] (issues_of (safeParse lib (JObj m))) =
        [\<lparr>code = too_small, path = [lit ''yearsOfExperience''],
          message = lit ''Number must be greater than or equal to 1''\<rparr>])
   \<and> (entry m (lit ''yearsOfExperience'') = JNum (Fin 11) \<longrightarrow>
      issues_at [lit ''yearsOfExperience''] (issues_of (safeParse lib (JObj m))) =
        [\<lparr>code = too_big, path = [lit ''yearsOfExperience''],
          message = lit ''Number must be less than or equal to 10''\<rparr>])
   \<and> (entry m (lit ''yearsOfExperience'') = JNum (Fin 1) \<or>
       entry m (lit ''yearsOfExperience'') = JNum (Fin 10) \<longrightarrow>
      issues_at [lit ''yearsOfExperience''] (issues_of (safeParse lib (JObj m))) = [])
   \<and> (entry m (lit ''yearsOfExperience'') = JUndefined \<longrightarrow>
      messages_at [lit ''yearsOfExperience''] (issues_of (safeParse lib (JObj m))) =
        [lit ''required field''])
   \<and> (entry m (lit ''yearsOfExperience'') \<noteq> JUndefined \<and>
       as_number (entry m (lit ''yearsOfExperience'')) = None \<longrightarrow>
      messages_at [lit ''yearsOfExperience''] (issues_of (safeParse lib (JObj m))) =
        [lit ''Years of Experience is required''])
   \<and> lit ''required field'' \<noteq> lit ''Years of Experience is required''"
  unfolding messages_at_def issues_at_yearsOfExperience yearsOfExperience_schema_issues
  by (cases "entry m (lit ''yearsOfExperience'')") auto

text \<open>
  An instance: the form without a value for \<open>yearsOfExperience\<close>.
\<close>

theorem yearsOfExperience_messages_witness:
  "entry missing_years_form (lit ''yearsOfExperience'') = JUndefined
   \<and> messages_at [lit ''yearsOfExperience'']
        (issues_of (safeParse example_lib (JObj missing_years_form))) = [lit ''required field'']"
  using yearsOfExperience_messages [of missing_years_form example_lib]
  by (simp add: missing_years_form_def example_defs)

text \<open>
  Claim C6. \<open>githubUrl\<close> is accepted exactly when it is a string that is a
  syntactically valid URL and contains \<open>github.com\<close>; a valid URL without
  \<open>github.com\<close> is reported with the one message \<open>Invalid GitHub URL\<close>. The syntax
  of URLs is the library's, and the statement holds for any.
\<close>

theorem githubUrl_rule:
  "(issues_at [lit ''githubUrl''] (issues_of (safeParse lib (JObj m))) = [] \<longleftrightarrow>
      (\<exists>s. entry m (lit ''githubUrl'') = JStr s \<and> is_url lib s \<and>
           (\<exists>a b. s = a @ lit ''github.com'' @ b)))
   \<and> (\<forall>s. entry m (lit ''githubUrl'') = JStr s \<and> is_url lib s \<and>
           \<not> (\<exists>a b. s = a @ lit ''github.com'' @ b) \<longrightarrow>
          messages_at [lit ''githubUrl''] (issues_of (safeParse lib (JObj m))) =
            [lit ''Invalid GitHub URL''])"
  unfolding messages_at_def issues_at_githubUrl githubUrl_schema_issues
    js_includes_iff [symmetric]
  by (cases "entry m (lit ''githubUrl'')") auto

text \<open>
  An instance: the URL \<open>https://example.com/octocat\<close>.
\<close>

theorem githubUrl_rule_witness:
  "entry other_site_form (lit ''githubUrl'') = JStr (lit ''https://example.com/octocat'')
   \<and> is_url example_lib (lit ''https://example.com/octocat'')
   \<and> \<not> js_includes (lit ''https://example.com/octocat'') (lit ''github.com'')
   \<and> messages_at [lit ''githubUrl''] (issues_of (safeParse example_lib (JObj other_site_form)))
       = [lit ''Invalid GitHub URL'']"
proof -
  have e: "entry other_site_form (lit ''githubUrl'') = JStr (lit ''https://example.com/octocat'')"
    by (simp add: other_site_form_def example_defs)
  have u: "is_url example_lib (lit ''https://example.com/octocat'')"
    by (simp add: example_lib_def)
  have n: "\<not> js_includes (lit ''https://example.com/octocat'') (lit ''github.com'')"
    by (simp add: lit_def)
  have n': "\<not> (\<exists>a b. lit ''https://example.com/octocat'' = a @ lit ''github.com'' @ b)"
    using n unfolding js_includes_iff by assumption
  have r: "\<forall>s. entry other_site_form (lit ''githubUrl'') = JStr s \<and> is_url example_lib s \<and>
           \<not> (\<exists>a b. s = a @ lit ''github.com'' @ b) \<longrightarrow>
          messages_at [lit ''githubUrl'']
            (issues_of (safeParse example_lib (JObj other_site_form))) =
            [lit ''Invalid GitHub URL'']"
    using githubUrl_rule [of example_lib other_site_form] by (rule conjunct2)
  have "messages_at [lit ''githubUrl'']
          (issues_of (safeParse example_lib (JObj other_site_form))) =
          [lit ''Invalid GitHub URL'']"
    by (rule r [THEN spec [of _ "lit ''https://example.com/octocat''"], THEN mp])
      (intro conjI e u n')
  with e u n show ?thesis by (intro conjI)
qed

text \<open>The expression accepts an ordinary address, and rejects the bare \<open>@\<close>.\<close>

lemmas regex_defs = emailRegex_test_def is_domain_def is_tld_def is_label_def dot_def
  label_char_def local_last_def local_char_def is_alnum_def is_letter_def in_range_def
  line_terminator_def at_sign_def lit_def

lemma emailRegex_accepts_example: "emailRegex_test (lit ''dev@example.com'')"
  by (simp add: regex_defs)

lemma emailRegex_rejects_bare_at: "\<not> emailRegex_test [at_sign]"
  by (simp add: regex_defs)

text \<open>What the expression accepts has a character before an \<open>@\<close> and one after it.\<close>

lemma is_domain_not_Nil: "is_domain d \<Longrightarrow> d \<noteq> []"
  by (auto simp add: is_domain_def)

lemma emailRegex_shape:
  assumes "emailRegex_test s"
  shows "\<exists>l d. l \<noteq> [] \<and> d \<noteq> [] \<and> s = l @ [at_sign] @ d"
proof -
  let ?P = "\<lambda>c. c \<noteq> at_sign"
  from assms obtain a d where dw: "dropWhile ?P s = a # d"
    and l: "takeWhile ?P s \<noteq> []" and dom: "is_domain d"
    by (auto simp add: emailRegex_test_def Let_def split: list.splits)
  from dw have "dropWhile ?P s \<noteq> []" by simp
  then have "\<not> ?P (hd (dropWhile ?P s))" by (rule hd_dropWhile)
  with dw have a: "a = at_sign" by simp
  have "s = takeWhile ?P s @ dropWhile ?P s" by simp
  with dw a have "s = takeWhile ?P s @ [at_sign] @ d" by simp
  with l is_domain_not_Nil [OF dom] show ?thesis by blast
qed

lemma email_rejected_by_library:
  assumes e: "entry m (lit ''email'') = JStr e"
    and r: "\<not> is_email lib e"
  shows "\<exists>issues. safeParse lib (JObj m) = Failure issues \<and>
           \<lparr>code = invalid_string, path = [lit ''email''], message = lit ''Invalid email''\<rparr>
             \<in> set issues \<and>
           messages_at [lit ''email''] issues = [lit ''Invalid email'']"
proof -
  from e r have at: "issues_at [lit ''email''] (issues_of (safeParse lib (JObj m))) =
      [\<lparr>code = invalid_string, path = [lit ''email''], message = lit ''Invalid email''\<rparr>]"
    by (simp add: issues_at_email email_schema_issues)
  then have mem: "\<lparr>code = invalid_string, path = [lit ''email''], message = lit ''Invalid email''\<rparr>
      \<in> set (issues_of (safeParse lib (JObj m)))"
    using issues_at_subset [of "[lit ''email'']" "issues_of (safeParse lib (JObj m))"] by auto
  show ?thesis
  proof (cases "safeParse lib (JObj m)")
    case (Success d)
    with mem show ?thesis by (simp add: issues_of_def)
  next
    case (Failure issues)
    with mem at show ?thesis by (simp add: issues_of_def messages_at_def)
  qed
qed

text \<open>
  Claim C7. With zod's e-mail syntax and any syntax of URLs: an \<open>email\<close> string that is
  not of the shape \<open>l@d\<close>, with \<open>l\<close> and \<open>d\<close> not empty, makes the validation fail, and
  what is reported on \<open>email\<close> is the one message \<open>Invalid email\<close>. A string without
  \<open>@\<close> is such a string, and so are \<open>@\<close>, \<open>a@\<close> and \<open>@b\<close>.
\<close>

theorem email_without_at_shape_rejected:
  assumes e: "entry m (lit ''email'') = JStr e"
    and shape: "\<not> (\<exists>l d. l \<noteq> [] \<and> d \<noteq> [] \<and> e = l @ [at_sign] @ d)"
  shows "\<exists>issues. safeParse (zod url_test) (JObj m) = Failure issues \<and>
           \<lparr>code = invalid_string, path = [lit ''email''], message = lit ''Invalid email''\<rparr>
             \<in> set issues \<and>
           messages_at [lit ''email''] issues = [lit ''Invalid email'']"
proof -
  from shape have "\<not> emailRegex_test e"
    using emailRegex_shape [of e] by blast
  then have "\<not> is_email (zod url_test) e" by (simp add: zod_def)
  with e show ?thesis by (rule email_rejected_by_library)
qed

text \<open>An instance: the address \<open>dev.example.com\<close>.\<close>

theorem email_without_at_shape_rejected_witness:
  "entry no_at_form (lit ''email'') = JStr (lit ''dev.example.com'')
   \<and> at_sign \<notin> set (lit ''dev.example.com'')
   \<and> messages_at [lit ''email'']
        (issues_of (safeParse (zod (is_url example_lib)) (JObj no_at_form))) =
       [lit ''Invalid email'']"
proof -
  have e: "entry no_at_form (lit ''email'') = JStr (lit ''dev.example.com'')"
    by (simp add: no_at_form_def example_defs)
  have n: "at_sign \<notin> set (lit ''dev.example.com'')"
    by (simp add: at_sign_def lit_def)
  then have s: "\<not> (\<exists>l d. l \<noteq> [] \<and> d \<noteq> [] \<and> lit ''dev.example.com'' = l @ [at_sign] @ d)"
    by (metis append_Cons in_set_conv_decomp)
  from email_without_at_shape_rejected [OF e s, of "is_url example_lib"]
  obtain issues where "safeParse (zod (is_url example_lib)) (JObj no_at_form) = Failure issues"
    and "messages_at [lit ''email''] issues = [lit ''Invalid email'']"
    by blast
  with e n show ?thesis by (simp add: issues_of_def)
qed

text \<open>
  Claim C5, as stated, has the equality check run only on records where every field
  passes its own rule. A failed check of a \<open>ZodString\<close> makes the object dirty, not
  aborted, and the refinement still runs: with the password \<open>short\<close> and the
  confirmation \<open>Different\<close>, the password fails its length rule and the mismatch is
  reported as well.
\<close>

theorem refinement_on_failed_field_counterexample:
  "messages_at [lit ''password''] (issues_of (safeParse example_lib (JObj short_password_form)))
     = [lit ''Password is too short'']
   \<and> safeParse example_lib (JObj short_password_form) =
       Failure [\<lparr>code = too_small, path = [lit ''password''],
                 message = lit ''Password is too short''\<rparr>,
                \<lparr>code = custom, path = [lit ''confirmPassword''],
                 message = lit ''Passwords do not match''\<rparr>]"
  by (simp add: short_password_form_def form_values_def good_email_def good_url_def
      example_lib_def schema_defs messages_at_def issues_at_def issues_of_def
      good_url_includes)

text \<open>
  Claim C5, amended. The equality check runs exactly on the records where every field
  has its expected type (four strings and a number that is not \<open>NaN\<close>), whether or not
  the fields pass their checks; its issue is reported exactly when, on such a record,
  the password and the confirmation differ. The message \<open>Passwords do not match\<close> is
  only ever reported at the path \<open>confirmPassword\<close>. On a record where every field passes
  its own rule, the validation succeeds when the two are equal and fails with the
  mismatch issue alone when they differ.
\<close>

theorem passwords_refinement:
  "(mismatch_issue \<in> set (issues_of (safeParse lib (JObj m))) \<longleftrightarrow>
      well_typed m \<and> entry m (lit ''password'') \<noteq> entry m (lit ''confirmPassword''))
   \<and> (\<forall>i \<in> set (issues_of (safeParse lib (JObj m))).
          message i = lit ''Passwords do not match'' \<longrightarrow>
            path i = [lit ''confirmPassword''])
   \<and> (\<forall>e g y s c.
          entry m (lit ''email'') = JStr e \<and> is_email lib e \<and>
          entry m (lit ''githubUrl'') = JStr g \<and> is_url lib g \<and>
            (\<exists>a b. g = a @ lit ''github.com'' @ b) \<and>
          entry m (lit ''yearsOfExperience'') = JNum (Fin y) \<and> 1 \<le> y \<and> y \<le> 10 \<and>
          entry m (lit ''password'') = JStr s \<and> 8 \<le> length s \<and> length s \<le> 20 \<and>
          entry m (lit ''confirmPassword'') = JStr c \<longrightarrow>
          safeParse lib (JObj m) =
            (if s = c
             then Success \<lparr>email = e, githubUrl = g, yearsOfExperience = Fin y,
                           password = s, confirmPassword = c\<rparr>
             else Failure [mismatch_issue]))"
proof (intro conjI ballI allI impI)
  show "mismatch_issue \<in> set (issues_of (safeParse lib (JObj m))) \<longleftrightarrow>
      well_typed m \<and> entry m (lit ''password'') \<noteq> entry m (lit ''confirmPassword'')"
    by (rule mismatch_mem_iff)
next
  fix i
  assume "i \<in> set (issues_of (safeParse lib (JObj m)))"
    and "message i = lit ''Passwords do not match''"
  then have "i = mismatch_issue" by (simp add: message_mismatch_iff)
  then show "path i = [lit ''confirmPassword'']" by (simp add: mismatch_issue_def)
next
  fix e g y s c
  assume a: "entry m (lit ''email'') = JStr e \<and> is_email lib e \<and>
          entry m (lit ''githubUrl'') = JStr g \<and> is_url lib g \<and>
            (\<exists>a b. g = a @ lit ''github.com'' @ b) \<and>
          entry m (lit ''yearsOfExperience'') = JNum (Fin y) \<and> 1 \<le> y \<and> y \<le> 10 \<and>
          entry m (lit ''password'') = JStr s \<and> 8 \<le> length s \<and> length s \<le> 20 \<and>
          entry m (lit ''confirmPassword'') = JStr c"
  then have "js_includes g (lit ''github.com'')" by (simp add: js_includes_iff)
  with a show "safeParse lib (JObj m) =
            (if s = c
             then Success \<lparr>email = e, githubUrl = g, yearsOfExperience = Fin y,
                           password = s, confirmPassword = c\<rparr>
             else Failure [mismatch_issue])"
    by (intro safeParse_fields_pass) simp_all
qed

text \<open>
  An instance: the password \<open>Secret123\<close> with the confirmation \<open>Different\<close>.
\<close>

theorem passwords_refinement_witness:
  "well_typed mismatch_form
   \<and> entry mismatch_form (lit ''password'') = JStr (lit ''Secret123'')
   \<and> entry mismatch_form (lit ''confirmPassword'') = JStr (lit ''Different'')
   \<and> safeParse example_lib (JObj mismatch_form) = Failure [mismatch_issue]"
proof -
  have g: "\<exists>a b. lit ''https://github.com/octocat'' = a @ lit ''github.com'' @ b"
    unfolding js_includes_iff [symmetric] by (rule good_url_includes)
  have w: "well_typed mismatch_form"
    by (simp add: well_typed_def mismatch_form_def example_defs)
  from passwords_refinement [of example_lib mismatch_form, THEN conjunct2, THEN conjunct2,
      rule_format, of "lit ''dev@example.com''" "lit ''https://github.com/octocat''" 5
        "lit ''Secret123''" "lit ''Different''"] g w
  show ?thesis
    by (simp add: mismatch_form_def example_defs)
qed

end
